theory Spec2Isabelle
  imports Complex_Main "HOL-Library.Word"
begin

section \<open>Values shared by all modules\<close>

text \<open>
  Python exceptions are values. \<open>HTTPException\<close> is FastAPI's exception class, a subclass
  of \<open>Exception\<close>; \<open>Retry\<close> is the exception Celery raises to reschedule a task;
  \<open>BotoCoreError\<close> is the AWS SDK's class (\<open>NoCredentialsError\<close> is a subclass of it);
  \<open>Error\<close> stands for every other exception (network, SDK, \<open>AttributeError\<close>,
  \<open>ZeroDivisionError\<close>, ...), carrying its message. All of them are caught by
  \<open>except Exception\<close>.
\<close>

datatype exn = HTTPException nat string | Retry exn | BotoCoreError string | Error string

type_synonym bytes = "8 word list"

section \<open>The environment and the world\<close>

text \<open>
  Everything the program reads from outside is a field of \<open>env\<close>: the process
  environment, the clock, the random uuid source, and the answer of every third-party
  call (\<open>Inl\<close>: the call raises). The last four fields say whether \<open>SessionLocal()\<close>,
  \<open>session.merge\<close>, \<open>session.commit\<close> and \<open>session.close\<close> of the task raise, and what.
  The program's own effects are fields of \<open>world\<close>: \<open>store\<close> is the table, \<open>writes\<close> the
  sequence of committed upserts.
\<close>

record wave_params =
  nframes :: nat
  framerate :: nat

record payload =
  p_job_id :: string
  p_status :: string
  p_text :: "string option"
  p_summary :: "string option"

text \<open>
  The JSON answer of the Google endpoint, as far as the code reads it:
  \<open>result["results"][i]["alternatives"][j]["transcript"]\<close>. A missing key is \<open>None\<close>.
\<close>

type_synonym google_alternative = "string option"
type_synonym google_result = "google_alternative list option"
type_synonym google_json = "google_result list option"

record env =
  environ :: "string \<rightharpoonup> string"
  utcnow :: nat
  uuid4 :: "nat \<Rightarrow> string"
  wave_open :: "bytes \<Rightarrow> exn + wave_params"
  OpenAI_init :: "string \<Rightarrow> exn option"
  transcriptions_create :: "string \<Rightarrow> bytes \<Rightarrow> string \<Rightarrow> exn + string"
  speech_to_text :: "string \<Rightarrow> bytes \<Rightarrow> string \<Rightarrow> exn + (string \<rightharpoonup> string)"
  speech_recognize :: "string \<Rightarrow> bytes \<Rightarrow> exn + google_json"
  boto3_clients :: "string \<Rightarrow> string \<Rightarrow> string \<Rightarrow> exn option"
  put_object :: "string \<Rightarrow> string \<Rightarrow> bytes \<Rightarrow> exn option"
  start_transcription_job :: "string \<Rightarrow> string \<Rightarrow> string \<Rightarrow> string \<Rightarrow> exn option"
  chat_completions_create :: "string \<Rightarrow> string \<Rightarrow> exn + string"
  httpx_post :: "string \<Rightarrow> payload \<Rightarrow> exn option"
  SessionLocal_raises :: "exn option"
  merge_raises :: "exn option"
  commit_raises :: "exn option"
  close_raises :: "exn option"

definition getenv :: "env \<Rightarrow> string \<Rightarrow> string \<Rightarrow> string" where
  "getenv e k d = (case environ e k of None \<Rightarrow> d | Some v \<Rightarrow> v)"

text \<open>A row of table \<open>transcription_history\<close> (class \<open>TranscriptionHistory\<close>, \<open>id\<close> the primary key).\<close>

record TranscriptionHistory =
  h_id :: string
  h_filename :: string
  h_provider :: string
  h_status :: string
  h_text :: "string option"
  h_summary :: "string option"
  h_created_at :: "nat option"
  h_webhook_url :: "string option"
  h_user_id :: "string option"

text \<open>The message \<open>send_task\<close> puts on the broker, with the retry count and delay of the request.\<close>

record task =
  t_job_id :: string
  t_audio_bytes :: bytes
  t_filename :: string
  t_provider_name :: string
  t_webhook_url :: "string option"
  t_user_id :: "string option"
  t_retries :: nat
  t_countdown :: nat

record world =
  store :: "TranscriptionHistory list"
  writes :: "TranscriptionHistory list"
  queue :: "task list"
  posts :: "(string \<times> payload) list"
  llm_calls :: "string list"
  uuid_next :: nat
  logs :: "string list"

definition log_msg :: "string \<Rightarrow> world \<Rightarrow> world" where
  "log_msg m w = w\<lparr>logs := logs w @ [m]\<rparr>"

text \<open>\<open>repr\<close> of a Python string that needs no escapes: the string between apostrophes.\<close>

definition py_repr :: "string \<Rightarrow> string" where
  "py_repr s = [CHR 0x27] @ s @ [CHR 0x27]"

fun str_exn :: "exn \<Rightarrow> string" where
  "str_exn (HTTPException c d) = d"
| "str_exn (Retry x) = ''Retry''"
| "str_exn (BotoCoreError m) = m"
| "str_exn (Error m) = m"

section \<open>main.py: the validator\<close>

definition MIN_FILE_SIZE :: nat where
  "MIN_FILE_SIZE = 100"

definition MAX_FILE_SIZE :: nat where
  "MAX_FILE_SIZE = 10 * 1024 * 1024"

definition SUPPORTED_EXTENSIONS :: "string list" where
  "SUPPORTED_EXTENSIONS = [''.mp3'', ''.wav'', ''.m4a'', ''.ogg'']"

record UploadFile =
  filename :: string
  content :: bytes

text \<open>
  \<open>str.rfind\<close>: the index of the last occurrence, \<open>-1\<close> when there is none.
\<close>

primrec rfind_from :: "char \<Rightarrow> string \<Rightarrow> int \<Rightarrow> int \<Rightarrow> int" where
  "rfind_from c [] i acc = acc"
| "rfind_from c (x # xs) i acc = rfind_from c xs (i + 1) (if x = c then i else acc)"

definition rfind :: "string \<Rightarrow> char \<Rightarrow> int" where
  "rfind p c = rfind_from c p 0 (-1)"

text \<open>
  \<open>os.path.splitext\<close> of the POSIX standard library (separator \<open>/\<close>, no alternative
  separator): the extension starts at the last dot of the last path component, unless
  only dots precede it there.
\<close>

definition splitext :: "string \<Rightarrow> string \<times> string" where
  "splitext p =
     (let sepIndex = rfind p CHR ''/'';
          dotIndex = rfind p CHR ''.''
      in if dotIndex > sepIndex
            \<and> list_ex (\<lambda>c. c \<noteq> CHR ''.'')
                 (take (nat (dotIndex - (sepIndex + 1))) (drop (nat (sepIndex + 1)) p))
         then (take (nat dotIndex) p, drop (nat dotIndex) p)
         else (p, []))"

text \<open>\<open>str.lower\<close> on the ASCII letters; every other character is kept.\<close>

definition lower_char :: "char \<Rightarrow> char" where
  "lower_char c =
     (case map_of (zip ''ABCDEFGHIJKLMNOPQRSTUVWXYZ'' ''abcdefghijklmnopqrstuvwxyz'') c of
        None \<Rightarrow> c
      | Some d \<Rightarrow> d)"

definition lower :: "string \<Rightarrow> string" where
  "lower s = map lower_char s"

text \<open>
  The body of the \<open>try\<close> block of \<open>validate_audio_file\<close>: every \<open>raise\<close> in it, and every
  failure of \<open>wave.open\<close> or of the division, is an \<open>Inl\<close>. The duration is the quotient of
  two header fields; \<open>x / 0.0\<close> raises \<open>ZeroDivisionError\<close> in Python. Both fields are
  below \<open>2^32\<close>, so the rounded quotient of the source is below \<open>1.0\<close>, or above \<open>300.0\<close>,
  exactly when the quotient itself is; the model compares the quotient.
\<close>

definition wav_checks :: "env \<Rightarrow> bytes \<Rightarrow> exn + unit" where
  "wav_checks e audio_bytes =
     (case wave_open e audio_bytes of
        Inl x \<Rightarrow> Inl x
      | Inr wavf \<Rightarrow>
          if framerate wavf = 0 then Inl (Error ''float division by zero'')
          else let duration = real (nframes wavf) / real (framerate wavf)
               in if duration < 1.0 then Inl (HTTPException 400 ''Audio too short.'')
                  else if duration > 300.0 then Inl (HTTPException 400 ''Audio too long.'')
                  else if framerate wavf < 8000 then Inl (HTTPException 400 ''Sample rate too low.'')
                  else Inr ())"

definition validate_audio_file :: "env \<Rightarrow> UploadFile \<Rightarrow> exn + bytes" where
  "validate_audio_file e file =
     (let ext = lower (snd (splitext (filename file)))
      in if ext \<notin> set SUPPORTED_EXTENSIONS
         then Inl (HTTPException 400 ''Unsupported file type.'')
         else let audio_bytes = content file
              in if audio_bytes = [] \<or> length audio_bytes < MIN_FILE_SIZE
                 then Inl (HTTPException 400 ''File is empty or too small.'')
                 else if length audio_bytes > MAX_FILE_SIZE
                 then Inl (HTTPException 400 ''File is too large.'')
                 else if ext = ''.wav''
                 then (case wav_checks e audio_bytes of
                         Inl x \<Rightarrow> Inl (HTTPException 400 ''Corrupted or invalid WAV file.'')
                       | Inr u \<Rightarrow> Inr audio_bytes)
                 else Inr audio_bytes)"

section \<open>providers.py\<close>

datatype provider = OpenAIProvider | ElevenLabsProvider | GoogleProvider | AWSProvider

fun name :: "provider \<Rightarrow> string" where
  "name OpenAIProvider = ''openai''"
| "name ElevenLabsProvider = ''elevenlabs''"
| "name GoogleProvider = ''google''"
| "name AWSProvider = ''aws''"

text \<open>
  Every \<open>transcribe\<close> returns \<open>Inl x\<close> when the Python method raises \<open>x\<close> to its caller and
  \<open>Inr r\<close> when it returns \<open>r\<close> (\<open>None\<close> is Python's \<open>None\<close>).

  In \<open>OpenAIProvider.transcribe\<close> the client is constructed before the \<open>try\<close> statement,
  so an exception of the constructor is not caught; only the transcription call is inside.
\<close>

definition OpenAIProvider_transcribe ::
    "env \<Rightarrow> bytes \<Rightarrow> string \<Rightarrow> world \<Rightarrow> (exn + string option) \<times> world" where
  "OpenAIProvider_transcribe e audio_bytes fname w =
     (let api_key = getenv e ''OPENAI_API_KEY'' []
      in if api_key = [] then (Inr None, log_msg ''OPENAI_API_KEY is not set.'' w)
         else case OpenAI_init e api_key of
                Some x \<Rightarrow> (Inl x, w)
              | None \<Rightarrow>
                  (case transcriptions_create e api_key audio_bytes fname of
                     Inl x \<Rightarrow> (Inr None, log_msg (''OpenAI error: '' @ str_exn x) w)
                   | Inr transcript \<Rightarrow> (Inr (Some transcript), w)))"

text \<open>
  In \<open>ElevenLabsProvider.transcribe\<close> the constructor and the call are both inside the
  \<open>try\<close>; \<open>speech_to_text\<close> of the environment stands for the two together.
\<close>

definition ElevenLabsProvider_transcribe ::
    "env \<Rightarrow> bytes \<Rightarrow> string \<Rightarrow> world \<Rightarrow> (exn + string option) \<times> world" where
  "ElevenLabsProvider_transcribe e audio_bytes fname w =
     (let api_key = getenv e ''ELEVENLABS_API_KEY'' []
      in if api_key = [] then (Inr None, log_msg ''ELEVENLABS_API_KEY is not set.'' w)
         else case speech_to_text e api_key audio_bytes fname of
                Inl x \<Rightarrow> (Inr None, log_msg (''ElevenLabs error: '' @ str_exn x) w)
              | Inr transcript \<Rightarrow> (Inr (transcript ''text''), w))"

text \<open>
  \<open>result["results"][0]["alternatives"][0]["transcript"]\<close>, with its \<open>KeyError\<close>s (whose
  \<open>str\<close> is the \<open>repr\<close> of the key) and \<open>IndexError\<close>s.
\<close>

definition google_transcript :: "google_json \<Rightarrow> exn + string" where
  "google_transcript result =
     (case result of
        None \<Rightarrow> Inl (Error (py_repr ''results''))
      | Some [] \<Rightarrow> Inl (Error ''list index out of range'')
      | Some (None # rs) \<Rightarrow> Inl (Error (py_repr ''alternatives''))
      | Some (Some [] # rs) \<Rightarrow> Inl (Error ''list index out of range'')
      | Some (Some (None # as) # rs) \<Rightarrow> Inl (Error (py_repr ''transcript''))
      | Some (Some (Some t # as) # rs) \<Rightarrow> Inr t)"

text \<open>
  \<open>speech_recognize\<close> of the environment stands for the base64 encoding, the POST,
  \<open>raise_for_status\<close> and \<open>resp.json()\<close>, all inside the \<open>try\<close>.
\<close>

definition GoogleProvider_transcribe ::
    "env \<Rightarrow> bytes \<Rightarrow> string \<Rightarrow> world \<Rightarrow> (exn + string option) \<times> world" where
  "GoogleProvider_transcribe e audio_bytes fname w =
     (let api_key = getenv e ''GOOGLE_API_KEY'' []
      in if api_key = []
         then (Inr (Some ''Google STT (demo): This is a fake transcript.''),
               log_msg ''GOOGLE_API_KEY is not set. Returning demo result.'' w)
         else case speech_recognize e api_key audio_bytes of
                Inl x \<Rightarrow> (Inr None, log_msg (''Google STT error: '' @ str_exn x) w)
              | Inr result \<Rightarrow>
                  (case google_transcript result of
                     Inl x \<Rightarrow> (Inr None, log_msg (''Google STT error: '' @ str_exn x) w)
                   | Inr t \<Rightarrow> (Inr (Some t), w)))"

text \<open>The handlers of \<open>AWSProvider.transcribe\<close>: both log and return \<open>None\<close>.\<close>

fun aws_except :: "exn \<Rightarrow> world \<Rightarrow> (exn + string option) \<times> world" where
  "aws_except (BotoCoreError m) w = (Inr None, log_msg (''AWS error: '' @ m) w)"
| "aws_except x w = (Inr None, log_msg (''AWS Transcribe error: '' @ str_exn x) w)"

text \<open>\<open>filename.split('.')[-1]\<close>: what follows the last dot, the whole name when there is none.\<close>

definition split_last :: "string \<Rightarrow> string" where
  "split_last s = drop (nat (rfind s CHR ''.'' + 1)) s"

definition AWSProvider_transcribe ::
    "env \<Rightarrow> bytes \<Rightarrow> string \<Rightarrow> world \<Rightarrow> (exn + string option) \<times> world" where
  "AWSProvider_transcribe e audio_bytes fname w =
     (let aws_access_key = getenv e ''AWS_ACCESS_KEY_ID'' [];
          aws_secret_key = getenv e ''AWS_SECRET_ACCESS_KEY'' [];
          aws_region = getenv e ''AWS_REGION'' ''us-east-1''
      in if aws_access_key = [] \<or> aws_secret_key = []
         then (Inr (Some ''AWS Transcribe (demo): This is a fake transcript.''),
               log_msg ''AWS credentials not set. Returning demo result.'' w)
         else case boto3_clients e aws_access_key aws_secret_key aws_region of
                Some x \<Rightarrow> aws_except x w
              | None \<Rightarrow>
                  (let bucket = getenv e ''AWS_TRANSCRIBE_BUCKET'' ''speech-proxy-demo-bucket'';
                       s3_key = ''uploads/'' @ uuid4 e (uuid_next w) @ ''_'' @ fname;
                       w1 = w\<lparr>uuid_next := uuid_next w + 1\<rparr>
                   in case put_object e bucket s3_key audio_bytes of
                        Some x \<Rightarrow> aws_except x w1
                      | None \<Rightarrow>
                          (let job_name = ''job-'' @ uuid4 e (uuid_next w1);
                               w2 = w1\<lparr>uuid_next := uuid_next w1 + 1\<rparr>;
                               job_uri = ''s3://'' @ bucket @ ''/'' @ s3_key
                           in case start_transcription_job e job_name job_uri (split_last fname) bucket of
                                Some x \<Rightarrow> aws_except x w2
                              | None \<Rightarrow>
                                  (Inr (Some (''AWS Transcribe job started: '' @ job_name
                                              @ '' (polling not implemented in demo)'')),
                                   log_msg (''AWS Transcribe job started: '' @ job_name) w2))))"

fun transcribe ::
    "provider \<Rightarrow> env \<Rightarrow> bytes \<Rightarrow> string \<Rightarrow> world \<Rightarrow> (exn + string option) \<times> world" where
  "transcribe OpenAIProvider = OpenAIProvider_transcribe"
| "transcribe ElevenLabsProvider = ElevenLabsProvider_transcribe"
| "transcribe GoogleProvider = GoogleProvider_transcribe"
| "transcribe AWSProvider = AWSProvider_transcribe"

definition PROVIDERS :: "provider list" where
  "PROVIDERS = [OpenAIProvider, ElevenLabsProvider, GoogleProvider, AWSProvider]"

definition PROVIDER_MAP :: "string \<rightharpoonup> provider" where
  "PROVIDER_MAP = map_of (map (\<lambda>p. (name p, p)) PROVIDERS)"

section \<open>llm.py\<close>

text \<open>
  \<open>llm_summary\<close> never raises: the client constructor and the completion call are inside
  its \<open>try\<close>. Field \<open>llm_calls\<close> of the world records each invocation.
  \<open>chat_completions_create\<close> of the environment gives
  \<open>completion.choices[0].message.content.strip()\<close>.
\<close>

definition llm_summary :: "env \<Rightarrow> string \<Rightarrow> world \<Rightarrow> string option \<times> world" where
  "llm_summary e text w =
     (let w0 = w\<lparr>llm_calls := llm_calls w @ [text]\<rparr>;
          api_key = getenv e ''OPENAI_API_KEY'' []
      in if api_key = [] \<or> text = [] then (None, w0)
         else case OpenAI_init e api_key of
                Some x \<Rightarrow> (None, log_msg (''LLM summary error: '' @ str_exn x) w0)
              | None \<Rightarrow>
                  (case chat_completions_create e api_key text of
                     Inl x \<Rightarrow> (None, log_msg (''LLM summary error: '' @ str_exn x) w0)
                   | Inr c \<Rightarrow> (Some c, w0)))"

section \<open>webhook.py\<close>

text \<open>Field \<open>posts\<close> of the world records each \<open>httpx.post\<close> that is attempted.\<close>

definition send_webhook :: "env \<Rightarrow> string \<Rightarrow> payload \<Rightarrow> world \<Rightarrow> (exn + unit) \<times> world" where
  "send_webhook e webhook_url pl w =
     (let w1 = w\<lparr>posts := posts w @ [(webhook_url, pl)]\<rparr>
      in case httpx_post e webhook_url pl of
           None \<Rightarrow> (Inr (), w1)
         | Some x \<Rightarrow> (Inr (), log_msg (''Webhook failed: '' @ str_exn x) w1))"

section \<open>db.py: the Job Store\<close>

text \<open>
  \<open>session.merge(hist); session.commit()\<close> on a table whose primary key is \<open>id\<close>: the row
  with that key is updated with the attributes set on \<open>hist\<close> (the worker never sets
  \<open>created_at\<close>, so the stored one stays); when there is none, a row is inserted and
  \<open>created_at\<close> takes its default, the current time.
\<close>

fun session_merge ::
    "nat \<Rightarrow> TranscriptionHistory \<Rightarrow> TranscriptionHistory list \<Rightarrow> TranscriptionHistory list" where
  "session_merge now hist [] = [hist\<lparr>h_created_at := Some now\<rparr>]"
| "session_merge now hist (r # rs) =
     (if h_id r = h_id hist then hist\<lparr>h_created_at := h_created_at r\<rparr> # rs
      else r # session_merge now hist rs)"

text \<open>\<open>session.query(TranscriptionHistory).filter_by(id=job_id).first()\<close>\<close>

definition get_by_id :: "string \<Rightarrow> TranscriptionHistory list \<Rightarrow> TranscriptionHistory option" where
  "get_by_id job_id rows = find (\<lambda>r. h_id r = job_id) rows"

section \<open>celery_worker.py\<close>

definition max_retries :: nat where
  "max_retries = 3"

definition default_retry_delay :: nat where
  "default_retry_delay = 10"

text \<open>
  Celery's \<open>Task.retry(exc=..., throw=True)\<close> for a request that has been retried
  \<open>t_retries\<close> times: when the limit is passed it raises \<open>exc\<close>; otherwise it publishes
  the same message again with the count increased and the default delay, and then raises
  \<open>Retry\<close> unless \<open>throw\<close> is false. The task calls it with the default \<open>throw=True\<close>.
\<close>

definition retry :: "task \<Rightarrow> exn \<Rightarrow> bool \<Rightarrow> world \<Rightarrow> (exn + unit) \<times> world" where
  "retry request exc throw w =
     (let retries = t_retries request + 1
      in if retries > max_retries then (Inl exc, w)
         else let w1 = w\<lparr>queue := queue w
                           @ [request\<lparr>t_retries := retries, t_countdown := default_retry_delay\<rparr>]\<rparr>
              in if throw then (Inl (Retry exc), w1) else (Inr (), w1))"

text \<open>
  The \<open>try\<close> block of \<open>process_transcription_job\<close>. \<open>PROVIDER_MAP.get\<close> gives \<open>None\<close> for an
  unknown name, and the call of \<open>transcribe\<close> on \<open>None\<close> raises \<open>AttributeError\<close>. The result
  is the triple \<open>(status, text, summary)\<close> the variables hold when the block ends.
\<close>

definition try_block ::
    "env \<Rightarrow> task \<Rightarrow> world \<Rightarrow> (exn + string \<times> string option \<times> string option) \<times> world" where
  "try_block e t w =
     (case PROVIDER_MAP (t_provider_name t) of
        None \<Rightarrow> (Inl (Error (py_repr ''NoneType'' @ '' object has no attribute ''
                           @ py_repr ''transcribe'')), w)
      | Some provider \<Rightarrow>
          (case transcribe provider e (t_audio_bytes t) (t_filename t) w of
             (Inl x, w1) \<Rightarrow> (Inl x, w1)
           | (Inr None, w1) \<Rightarrow> (Inr (''failed'', None, None), w1)
           | (Inr (Some text), w1) \<Rightarrow>
               if text \<noteq> []
               then (case llm_summary e text w1 of
                       (summary, w2) \<Rightarrow> (Inr (''completed'', Some text, summary), w2))
               else (Inr (''failed'', Some text, None), w1)))"

text \<open>The \<open>TranscriptionHistory\<close> object and the webhook payload the task builds.\<close>

definition hist_row ::
    "task \<Rightarrow> string \<Rightarrow> string option \<Rightarrow> string option \<Rightarrow> TranscriptionHistory" where
  "hist_row t status text summary =
     \<lparr>h_id = t_job_id t, h_filename = t_filename t, h_provider = t_provider_name t,
      h_status = status, h_text = text, h_summary = summary, h_created_at = None,
      h_webhook_url = t_webhook_url t, h_user_id = t_user_id t\<rparr>"

definition webhook_payload ::
    "task \<Rightarrow> string \<Rightarrow> string option \<Rightarrow> string option \<Rightarrow> payload" where
  "webhook_payload t status text summary =
     \<lparr>p_job_id = t_job_id t, p_status = status, p_text = text, p_summary = summary\<rparr>"

text \<open>
  The statements after the \<open>try\<close>: the upsert, then the webhook when the URL is truthy.
  They are outside every \<open>try\<close>, so an exception of \<open>merge\<close>, \<open>commit\<close> or \<open>close\<close> leaves the
  task there, before the webhook; the row is in the table once \<open>commit\<close> has returned.
\<close>

definition finalize ::
    "env \<Rightarrow> task \<Rightarrow> string \<Rightarrow> string option \<Rightarrow> string option \<Rightarrow> world \<Rightarrow> (exn + unit) \<times> world" where
  "finalize e t status text summary w =
     (let hist = hist_row t status text summary
      in case merge_raises e of
           Some x \<Rightarrow> (Inl x, w)
         | None \<Rightarrow>
             (case commit_raises e of
                Some x \<Rightarrow> (Inl x, w)
              | None \<Rightarrow>
                  (let w1 = w\<lparr>store := session_merge (utcnow e) hist (store w),
                              writes := writes w @ [hist]\<rparr>
                   in case close_raises e of
                        Some x \<Rightarrow> (Inl x, w1)
                      | None \<Rightarrow>
                          (case t_webhook_url t of
                             None \<Rightarrow> (Inr (), w1)
                           | Some url \<Rightarrow>
                               if url \<noteq> []
                               then send_webhook e url (webhook_payload t status text summary) w1
                               else (Inr (), w1)))))"

text \<open>
  The task: \<open>SessionLocal()\<close> comes first and is outside the \<open>try\<close>; the handler of the
  \<open>try\<close> calls \<open>self.retry(exc=e)\<close>, and the finalization follows the \<open>try\<close> statement.
\<close>

definition process_transcription_job :: "env \<Rightarrow> task \<Rightarrow> world \<Rightarrow> (exn + unit) \<times> world" where
  "process_transcription_job e t w =
     (case SessionLocal_raises e of
        Some x \<Rightarrow> (Inl x, w)
      | None \<Rightarrow>
          (case try_block e t w of
             (Inr (status, text, summary), w1) \<Rightarrow> finalize e t status text summary w1
           | (Inl x, w1) \<Rightarrow>
               (case retry t x True w1 of
                  (Inl y, w2) \<Rightarrow> (Inl y, w2)
                | (Inr u, w2) \<Rightarrow> finalize e t ''failed'' None None w2)))"

section \<open>main.py: the submission endpoint\<close>

record SubmitJobResponse =
  r_job_id :: string
  r_status :: string

definition transcribe_async ::
    "env \<Rightarrow> UploadFile \<Rightarrow> string \<Rightarrow> string option \<Rightarrow> string option \<Rightarrow> world
       \<Rightarrow> (exn + SubmitJobResponse) \<times> world" where
  "transcribe_async e file provider webhook_url user_id w =
     (if PROVIDER_MAP provider = None then (Inl (HTTPException 400 ''Unknown provider.''), w)
      else case validate_audio_file e file of
             Inl x \<Rightarrow> (Inl x, w)
           | Inr audio_bytes \<Rightarrow>
               (let job_id = uuid4 e (uuid_next w);
                    w1 = w\<lparr>uuid_next := uuid_next w + 1\<rparr>;
                    w2 = w1\<lparr>queue := queue w1
                            @ [\<lparr>t_job_id = job_id, t_audio_bytes = audio_bytes,
                                t_filename = filename file, t_provider_name = provider,
                                t_webhook_url = webhook_url, t_user_id = user_id,
                                t_retries = 0, t_countdown = 0\<rparr>]\<rparr>
                in (Inr \<lparr>r_job_id = job_id, r_status = ''queued''\<rparr>, w2)))"

section \<open>The worker consuming the queue\<close>

text \<open>
  A worker takes the message at the head of the queue and runs the task on it, until the
  queue is empty; an exception of the task ends that delivery only. The \<open>n\<close>-th delivery
  sees the environment \<open>envs n\<close>. A retry is a new message, so it is delivered like any
  other.
\<close>

definition weight :: "task list \<Rightarrow> nat" where
  "weight q = sum_list (map (\<lambda>t. Suc (Suc max_retries - t_retries t)) q)"

text \<open>
  The loop ends because a task publishes at most one message, its own retry, and only
  below the retry limit. The lemmas up to \<open>queue_process\<close> say so; they are what the
  termination proof of \<open>worker_loop\<close> needs.
\<close>

lemma queue_log_msg [simp]: "queue (log_msg m w) = queue w"
  by (simp add: log_msg_def)

lemma queue_aws_except [simp]: "queue (snd (aws_except x w)) = queue w"
  by (cases x) simp_all

lemma queue_transcribe: "queue (snd (transcribe p e a f w)) = queue w"
  by (cases p)
     (simp_all add: OpenAIProvider_transcribe_def ElevenLabsProvider_transcribe_def
        GoogleProvider_transcribe_def AWSProvider_transcribe_def Let_def
        split: option.splits sum.splits)

lemma queue_llm_summary: "queue (snd (llm_summary e text w)) = queue w"
  by (simp add: llm_summary_def Let_def split: option.splits sum.splits)

lemma queue_send_webhook: "queue (snd (send_webhook e u pl w)) = queue w"
  by (simp add: send_webhook_def Let_def split: option.splits)

lemma queue_finalize: "queue (snd (finalize e t st tx sm w)) = queue w"
  by (simp add: finalize_def Let_def queue_send_webhook split: option.splits)

lemma queue_try_block: "queue (snd (try_block e t w)) = queue w"
proof (cases "PROVIDER_MAP (t_provider_name t)")
  case None
  then show ?thesis by (simp add: try_block_def)
next
  case (Some p)
  obtain r w1 where tr: "transcribe p e (t_audio_bytes t) (t_filename t) w = (r, w1)"
    by (cases "transcribe p e (t_audio_bytes t) (t_filename t) w")
  then have q1: "queue w1 = queue w"
    using queue_transcribe [of p e "t_audio_bytes t" "t_filename t" w] by simp
  show ?thesis
    using Some tr q1 queue_llm_summary
    by (auto simp: try_block_def split: sum.splits option.splits prod.splits)
      (metis snd_conv)
qed

lemma queue_process:
  "queue (snd (process_transcription_job e t w)) = queue w
   \<or> (t_retries t < max_retries
      \<and> queue (snd (process_transcription_job e t w))
          = queue w @ [t\<lparr>t_retries := t_retries t + 1, t_countdown := default_retry_delay\<rparr>])"
proof -
  obtain r w1 where tb: "try_block e t w = (r, w1)" by (cases "try_block e t w")
  then have q1: "queue w1 = queue w" using queue_try_block [of e t w] by simp
  show ?thesis
    using tb q1
    by (cases r)
       (auto simp: process_transcription_job_def retry_def Let_def queue_finalize
          split: option.splits)
qed

function worker_loop :: "(nat \<Rightarrow> env) \<Rightarrow> nat \<Rightarrow> world \<Rightarrow> world" where
  "worker_loop envs n w =
     (case queue w of
        [] \<Rightarrow> w
      | t # q \<Rightarrow> worker_loop envs (Suc n) (snd (process_transcription_job (envs n) t (w\<lparr>queue := q\<rparr>))))"
  by pat_completeness auto
termination
proof (relation "measure (\<lambda>(envs, n, w). weight (queue w))")
  show "wf (measure (\<lambda>(envs, n, w). weight (queue w)))" by simp
next
  fix envs :: "nat \<Rightarrow> env" and n :: nat and w :: world and t q
  assume q: "queue w = t # q"
  let ?w' = "snd (process_transcription_job (envs n) t (w\<lparr>queue := q\<rparr>))"
  have "queue ?w' = q \<or> (t_retries t < max_retries
      \<and> queue ?w' = q @ [t\<lparr>t_retries := t_retries t + 1, t_countdown := default_retry_delay\<rparr>])"
    using queue_process [of "envs n" t "w\<lparr>queue := q\<rparr>"] by simp
  then have "weight (queue ?w') < weight (t # q)"
    by (auto simp: weight_def max_retries_def)
  then show "((envs, Suc n, ?w'), (envs, n, w)) \<in> measure (\<lambda>(envs, n, w). weight (queue w))"
    using q by simp
qed

declare worker_loop.simps [simp del]

section \<open>An environment and a world for the examples\<close>

text \<open>
  In \<open>env0\<close> no credential is set, no upload parses as a WAVE file, every network call
  fails and the database works; the examples change the fields they need. \<open>world0\<close> is the empty world.
\<close>

definition env0 :: env where
  "env0 = \<lparr>environ = Map.empty, utcnow = 0, uuid4 = (\<lambda>n. ''id-'' @ replicate n CHR ''i''),
           wave_open = (\<lambda>b. Inl (Error ''file does not start with RIFF id'')),
           OpenAI_init = (\<lambda>k. None),
           transcriptions_create = (\<lambda>k a f. Inl (Error ''Connection error.'')),
           speech_to_text = (\<lambda>k a f. Inl (Error ''Connection error.'')),
           speech_recognize = (\<lambda>k a. Inl (Error ''Connection error.'')),
           boto3_clients = (\<lambda>a s r. None),
           put_object = (\<lambda>b k a. Some (BotoCoreError ''Could not connect to the endpoint URL'')),
           start_transcription_job = (\<lambda>j u f b. Some (BotoCoreError ''Could not connect to the endpoint URL'')),
           chat_completions_create = (\<lambda>k t. Inl (Error ''Connection error.'')),
           httpx_post = (\<lambda>u p. Some (Error ''timed out'')),
           SessionLocal_raises = None, merge_raises = None, commit_raises = None,
           close_raises = None\<rparr>"

definition world0 :: world where
  "world0 = \<lparr>store = [], writes = [], queue = [], posts = [], llm_calls = [], uuid_next = 0,
             logs = []\<rparr>"

text \<open>The calls of the task on its database session do not raise.\<close>

definition db_ok :: "env \<Rightarrow> bool" where
  "db_ok e \<longleftrightarrow> SessionLocal_raises e = None \<and> merge_raises e = None
             \<and> commit_raises e = None \<and> close_raises e = None"

text \<open>The database is down: \<open>session.commit\<close> raises.\<close>

definition env_db_down :: env where
  "env_db_down = env0\<lparr>commit_raises := Some (Error ''database is locked'')\<rparr>"

text \<open>
  Whether the \<open>try\<close> block of the task raises; lemma \<open>attempt_raises_any_world\<close> below
  shows that the world it is started in makes no difference.
\<close>

definition attempt_raises :: "env \<Rightarrow> task \<Rightarrow> bool" where
  "attempt_raises e t = isl (fst (try_block e t world0))"

text \<open>A \<open>.wav\<close> upload whose header gives 4000 frames at 8000 Hz: half a second.\<close>

definition env_short_wav :: env where
  "env_short_wav = env0\<lparr>wave_open := (\<lambda>b. Inr \<lparr>nframes = 4000, framerate = 8000\<rparr>)\<rparr>"

text \<open>The key is set, and constructing the OpenAI client raises.\<close>

definition env_openai_broken :: env where
  "env_openai_broken =
     env0\<lparr>environ := [''OPENAI_API_KEY'' \<mapsto> ''sk-test''],
          OpenAI_init := (\<lambda>k. Some (Error ''unexpected keyword argument''))\<rparr>"

definition envs_openai_broken :: "nat \<Rightarrow> env" where
  "envs_openai_broken n = env_openai_broken"

text \<open>The transcription service answers, with an empty transcript.\<close>

definition env_openai_silent :: env where
  "env_openai_silent =
     env0\<lparr>environ := [''OPENAI_API_KEY'' \<mapsto> ''sk-test''],
          transcriptions_create := (\<lambda>k a f. Inr [])\<rparr>"

text \<open>The summarizer has its key, and its completion call fails.\<close>

definition env_summary_down :: env where
  "env_summary_down = env0\<lparr>environ := [''OPENAI_API_KEY'' \<mapsto> ''sk-test'']\<rparr>"

definition job0 :: task where
  "job0 = \<lparr>t_job_id = ''job-1'', t_audio_bytes = replicate 100 0, t_filename = ''talk.mp3'',
           t_provider_name = ''openai'', t_webhook_url = Some ''http://client/hook'',
           t_user_id = None, t_retries = 0, t_countdown = 0\<rparr>"

definition row_a :: TranscriptionHistory where
  "row_a = hist_row job0 ''failed'' None None"

definition row_b :: TranscriptionHistory where
  "row_b = hist_row job0 ''completed'' (Some ''hello'') (Some ''hi'')"

definition row_other :: TranscriptionHistory where
  "row_other = (hist_row (job0\<lparr>t_job_id := ''job-2''\<rparr>) ''completed'' (Some ''other'') None)
                 \<lparr>h_created_at := Some 1\<rparr>"

section \<open>The validator and the submission endpoint\<close>

lemma ext_short_wav: "lower (snd (splitext ''short.wav'')) = ''.wav''"
  by code_simp

lemma ext_notes_txt: "lower (snd (splitext ''notes.txt'')) = ''.txt''"
  by code_simp

lemma ext_talk_mp3: "lower (snd (splitext ''talk.MP3'')) = ''.mp3''"
  by code_simp

lemma provider_map_unknown: "PROVIDER_MAP p = None \<longleftrightarrow> p \<notin> set (map name PROVIDERS)"
  by (simp add: PROVIDER_MAP_def PROVIDERS_def)

lemma unsupported_first:
  "lower (snd (splitext (filename file))) \<notin> set SUPPORTED_EXTENSIONS
   \<Longrightarrow> validate_audio_file e file = Inl (HTTPException 400 ''Unsupported file type.'')"
  by (simp add: validate_audio_file_def Let_def)

lemma too_small_second:
  "lower (snd (splitext (filename file))) \<in> set SUPPORTED_EXTENSIONS
   \<Longrightarrow> length (content file) < 100
   \<Longrightarrow> validate_audio_file e file = Inl (HTTPException 400 ''File is empty or too small.'')"
  by (simp add: validate_audio_file_def Let_def MIN_FILE_SIZE_def)

lemma too_large_third:
  "lower (snd (splitext (filename file))) \<in> set SUPPORTED_EXTENSIONS
   \<Longrightarrow> 100 \<le> length (content file) \<Longrightarrow> 10 * 1024 * 1024 < length (content file)
   \<Longrightarrow> validate_audio_file e file = Inl (HTTPException 400 ''File is too large.'')"
  by (auto simp: validate_audio_file_def Let_def MIN_FILE_SIZE_def MAX_FILE_SIZE_def)

lemma rejected_never_queued:
  "validate_audio_file e file = Inl x
   \<Longrightarrow> transcribe_async e file provider webhook_url user_id w
       = (Inl (if PROVIDER_MAP provider = None then HTTPException 400 ''Unknown provider.'' else x), w)"
  by (simp add: transcribe_async_def)

lemma accepted_after_validation:
  "transcribe_async e file provider webhook_url user_id w = (Inr r, w')
   \<Longrightarrow> \<exists>audio_bytes. validate_audio_file e file = Inr audio_bytes
         \<and> r = \<lparr>r_job_id = uuid4 e (uuid_next w), r_status = ''queued''\<rparr>
         \<and> w' = w\<lparr>uuid_next := uuid_next w + 1,
                  queue := queue w @ [\<lparr>t_job_id = uuid4 e (uuid_next w), t_audio_bytes = audio_bytes,
                                t_filename = filename file, t_provider_name = provider,
                                t_webhook_url = webhook_url, t_user_id = user_id,
                                t_retries = 0, t_countdown = 0\<rparr>]\<rparr>"
  by (auto simp: transcribe_async_def Let_def split: if_splits sum.splits)

text \<open>
  Whatever the header says, a \<open>.wav\<close> upload of admissible size that is rejected is
  rejected as corrupted: the \<open>except Exception\<close> of the validator also catches the
  \<open>HTTPException\<close>s raised inside its own \<open>try\<close> block.
\<close>

lemma wav_rejection_detail:
  assumes "lower (snd (splitext (filename file))) = ''.wav''"
    and "MIN_FILE_SIZE \<le> length (content file)" and "length (content file) \<le> MAX_FILE_SIZE"
    and "validate_audio_file e file = Inl x"
  shows "x = HTTPException 400 ''Corrupted or invalid WAV file.''"
proof -
  have sup: "''.wav'' \<in> set SUPPORTED_EXTENSIONS" by (simp add: SUPPORTED_EXTENSIONS_def)
  have ne: "content file \<noteq> []" using assms(2) by (auto simp: MIN_FILE_SIZE_def)
  show ?thesis
    using assms sup ne
    by (cases "wav_checks e (content file)") (simp_all add: validate_audio_file_def Let_def)
qed

text \<open>
  C2. A \<open>.wav\<close> upload of 100 bytes whose header gives 4000 frames at 8000 Hz lasts 0.5 s.
  The duration rule raises the 400 with detail "Audio too short." inside the \<open>try\<close> block,
  but what leaves \<open>validate_audio_file\<close> is the 400 with detail "Corrupted or invalid WAV
  file.": the specific reason the claim documents never reaches the caller.
\<close>

theorem wav_too_short_reported_as_corrupted:
  "wav_checks env_short_wav (replicate 100 0) = Inl (HTTPException 400 ''Audio too short.'')
   \<and> validate_audio_file env_short_wav \<lparr>filename = ''short.wav'', content = replicate 100 0\<rparr>
     = Inl (HTTPException 400 ''Corrupted or invalid WAV file.'')"
  by (simp add: validate_audio_file_def wav_checks_def ext_short_wav Let_def
        SUPPORTED_EXTENSIONS_def MIN_FILE_SIZE_def MAX_FILE_SIZE_def env_short_wav_def env0_def)

text \<open>
  C6. The validator applies its rules in order: an extension outside the allow-list is
  rejected as unsupported whatever the size; with an allowed extension, fewer than 100
  bytes are rejected as empty or too small; with an allowed extension and at least 100
  bytes, more than 10 MiB are rejected as too large. Validation comes before the job id:
  when the validator rejects, the endpoint returns an error and leaves the world as it
  was (no uuid drawn, nothing queued), and when the endpoint answers with a job id the
  validator has admitted the bytes that are queued.
\<close>

theorem validation_order_before_job_id:
  "(lower (snd (splitext (filename file))) \<notin> set SUPPORTED_EXTENSIONS
      \<longrightarrow> validate_audio_file e file = Inl (HTTPException 400 ''Unsupported file type.''))
   \<and> (lower (snd (splitext (filename file))) \<in> set SUPPORTED_EXTENSIONS
        \<and> length (content file) < 100
      \<longrightarrow> validate_audio_file e file = Inl (HTTPException 400 ''File is empty or too small.''))
   \<and> (lower (snd (splitext (filename file))) \<in> set SUPPORTED_EXTENSIONS
        \<and> 100 \<le> length (content file) \<and> 10 * 1024 * 1024 < length (content file)
      \<longrightarrow> validate_audio_file e file = Inl (HTTPException 400 ''File is too large.''))
   \<and> (\<forall>x. validate_audio_file e file = Inl x
      \<longrightarrow> (\<exists>y. transcribe_async e file provider webhook_url user_id w = (Inl y, w)))
   \<and> (\<forall>r w'. transcribe_async e file provider webhook_url user_id w = (Inr r, w')
      \<longrightarrow> (\<exists>audio_bytes. validate_audio_file e file = Inr audio_bytes
            \<and> r_job_id r = uuid4 e (uuid_next w)
            \<and> uuid_next w' = uuid_next w + 1
            \<and> queue w' = queue w @ [\<lparr>t_job_id = r_job_id r, t_audio_bytes = audio_bytes,
                                t_filename = filename file, t_provider_name = provider,
                                t_webhook_url = webhook_url, t_user_id = user_id,
                                t_retries = 0, t_countdown = 0\<rparr>]))"
proof (intro conjI impI allI)
  assume "lower (snd (splitext (filename file))) \<notin> set SUPPORTED_EXTENSIONS"
  then show "validate_audio_file e file = Inl (HTTPException 400 ''Unsupported file type.'')"
    by (rule unsupported_first)
next
  assume "lower (snd (splitext (filename file))) \<in> set SUPPORTED_EXTENSIONS
          \<and> length (content file) < 100"
  then show "validate_audio_file e file = Inl (HTTPException 400 ''File is empty or too small.'')"
    by (simp add: too_small_second)
next
  assume "lower (snd (splitext (filename file))) \<in> set SUPPORTED_EXTENSIONS
          \<and> 100 \<le> length (content file) \<and> 10 * 1024 * 1024 < length (content file)"
  then show "validate_audio_file e file = Inl (HTTPException 400 ''File is too large.'')"
    by (simp add: too_large_third)
next
  fix x
  assume "validate_audio_file e file = Inl x"
  then show "\<exists>y. transcribe_async e file provider webhook_url user_id w = (Inl y, w)"
    by (simp add: rejected_never_queued)
next
  fix r w'
  assume "transcribe_async e file provider webhook_url user_id w = (Inr r, w')"
  from accepted_after_validation [OF this]
  show "\<exists>audio_bytes. validate_audio_file e file = Inr audio_bytes
            \<and> r_job_id r = uuid4 e (uuid_next w)
            \<and> uuid_next w' = uuid_next w + 1
            \<and> queue w' = queue w @ [\<lparr>t_job_id = r_job_id r, t_audio_bytes = audio_bytes,
                                t_filename = filename file, t_provider_name = provider,
                                t_webhook_url = webhook_url, t_user_id = user_id,
                                t_retries = 0, t_countdown = 0\<rparr>]"
    by auto
qed

theorem validation_order_before_job_id_witness:
  "validate_audio_file env0 \<lparr>filename = ''notes.txt'', content = []\<rparr>
     = Inl (HTTPException 400 ''Unsupported file type.'')
   \<and> validate_audio_file env0 \<lparr>filename = ''talk.MP3'', content = replicate 50 0\<rparr>
     = Inl (HTTPException 400 ''File is empty or too small.'')
   \<and> validate_audio_file env0 \<lparr>filename = ''talk.MP3'', content = replicate 10485761 0\<rparr>
     = Inl (HTTPException 400 ''File is too large.'')
   \<and> (\<exists>y. transcribe_async env0 \<lparr>filename = ''talk.MP3'', content = replicate 50 0\<rparr> ''openai''
             None None world0 = (Inl y, world0))
   \<and> transcribe_async env0 \<lparr>filename = ''talk.MP3'', content = replicate 100 0\<rparr> ''openai''
        None None world0
     = (Inr \<lparr>r_job_id = ''id-'', r_status = ''queued''\<rparr>,
        world0\<lparr>uuid_next := 1,
               queue := [\<lparr>t_job_id = ''id-'', t_audio_bytes = replicate 100 0,
                          t_filename = ''talk.MP3'', t_provider_name = ''openai'',
                          t_webhook_url = None, t_user_id = None,
                          t_retries = 0, t_countdown = 0\<rparr>]\<rparr>)
   \<and> validate_audio_file env0 \<lparr>filename = ''talk.MP3'', content = replicate 100 0\<rparr>
     = Inr (replicate 100 0)"
proof -
  let ?small = "\<lparr>filename = ''talk.MP3'', content = replicate 50 (0::8 word)\<rparr>"
  let ?good = "\<lparr>filename = ''talk.MP3'', content = replicate 100 (0::8 word)\<rparr>"
  have sup: "''.mp3'' \<in> set SUPPORTED_EXTENSIONS" "''.txt'' \<notin> set SUPPORTED_EXTENSIONS"
    by (simp_all add: SUPPORTED_EXTENSIONS_def)
  have a: "validate_audio_file env0 \<lparr>filename = ''notes.txt'', content = []\<rparr>
             = Inl (HTTPException 400 ''Unsupported file type.'')"
    using validation_order_before_job_id [of "\<lparr>filename = ''notes.txt'', content = []\<rparr>" env0] sup
    by (simp add: ext_notes_txt)
  have b: "validate_audio_file env0 ?small = Inl (HTTPException 400 ''File is empty or too small.'')"
    using validation_order_before_job_id [of ?small env0] sup
    by (simp add: ext_talk_mp3)
  have c: "validate_audio_file env0 \<lparr>filename = ''talk.MP3'', content = replicate 10485761 0\<rparr>
             = Inl (HTTPException 400 ''File is too large.'')"
    using validation_order_before_job_id
            [of "\<lparr>filename = ''talk.MP3'', content = replicate 10485761 0\<rparr>" env0] sup
    by (simp add: ext_talk_mp3)
  have d: "\<exists>y. transcribe_async env0 ?small ''openai'' None None world0 = (Inl y, world0)"
    using validation_order_before_job_id [of ?small env0 "''openai''" None None world0] b
    by simp
  have v: "validate_audio_file env0 ?good = Inr (replicate 100 0)"
    using sup
    by (simp add: validate_audio_file_def Let_def ext_talk_mp3 MIN_FILE_SIZE_def MAX_FILE_SIZE_def)
  have pm: "PROVIDER_MAP ''openai'' = Some OpenAIProvider"
    by (simp add: PROVIDER_MAP_def PROVIDERS_def)
  have f: "transcribe_async env0 ?good ''openai'' None None world0
     = (Inr \<lparr>r_job_id = ''id-'', r_status = ''queued''\<rparr>,
        world0\<lparr>uuid_next := 1,
               queue := [\<lparr>t_job_id = ''id-'', t_audio_bytes = replicate 100 0,
                          t_filename = ''talk.MP3'', t_provider_name = ''openai'',
                          t_webhook_url = None, t_user_id = None,
                          t_retries = 0, t_countdown = 0\<rparr>]\<rparr>)"
    using v pm by (simp add: transcribe_async_def Let_def env0_def world0_def)
  from a b c d f v show ?thesis by blast
qed

text \<open>
  C7. An upload whose extension is \<open>.mp3\<close>, \<open>.m4a\<close> or \<open>.ogg\<close> and whose size is between
  100 bytes and 10 MiB inclusive is admitted with its bytes, in every environment: the
  result does not depend on what a header parser would say about the content.
\<close>

theorem non_wav_admitted_on_size_alone:
  assumes "lower (snd (splitext (filename file))) \<in> {''.mp3'', ''.m4a'', ''.ogg''}"
    and "100 \<le> length (content file)" and "length (content file) \<le> 10 * 1024 * 1024"
  shows "validate_audio_file e file = Inr (content file)"
  using assms
  by (auto simp: validate_audio_file_def Let_def SUPPORTED_EXTENSIONS_def MIN_FILE_SIZE_def
        MAX_FILE_SIZE_def)

theorem non_wav_admitted_on_size_alone_witness:
  "validate_audio_file env0 \<lparr>filename = ''talk.MP3'', content = replicate 100 255\<rparr>
     = Inr (replicate 100 255)
   \<and> validate_audio_file env0 \<lparr>filename = ''talk.MP3'', content = replicate 10485760 255\<rparr>
     = Inr (replicate 10485760 255)"
  using non_wav_admitted_on_size_alone [of "\<lparr>filename = ''talk.MP3'', content = replicate 100 255\<rparr>" env0]
    non_wav_admitted_on_size_alone [of "\<lparr>filename = ''talk.MP3'', content = replicate 10485760 255\<rparr>" env0]
  by (simp add: ext_talk_mp3)

text \<open>
  C8. A submission whose provider key is not the name of a registered provider is
  answered with the 400 "Unknown provider." and the world is unchanged: no uuid is
  drawn, nothing is queued, the Job Store is as before.
\<close>

theorem unknown_provider_rejected:
  assumes "provider \<notin> set (map name PROVIDERS)"
  shows "transcribe_async e file provider webhook_url user_id w
           = (Inl (HTTPException 400 ''Unknown provider.''), w)"
  using assms by (simp add: transcribe_async_def provider_map_unknown)

theorem unknown_provider_rejected_witness:
  "transcribe_async env0 \<lparr>filename = ''talk.MP3'', content = replicate 100 255\<rparr> ''azure''
      (Some ''http://client/hook'') None world0
     = (Inl (HTTPException 400 ''Unknown provider.''), world0)"
  using unknown_provider_rejected [of "''azure''" env0 _ "Some ''http://client/hook''" None world0]
  by (simp add: PROVIDERS_def)

section \<open>What each step leaves unchanged\<close>

lemma log_msg_fields [simp]:
  "store (log_msg m w) = store w" "writes (log_msg m w) = writes w"
  "posts (log_msg m w) = posts w" "llm_calls (log_msg m w) = llm_calls w"
  "uuid_next (log_msg m w) = uuid_next w"
  by (simp_all add: log_msg_def)

lemma aws_except_fields [simp]:
  "fst (aws_except x w) = Inr None"
  "store (snd (aws_except x w)) = store w" "writes (snd (aws_except x w)) = writes w"
  "posts (snd (aws_except x w)) = posts w" "llm_calls (snd (aws_except x w)) = llm_calls w"
  by (cases x; simp)+

lemma transcribe_frame:
  "store (snd (transcribe p e a f w)) = store w
   \<and> writes (snd (transcribe p e a f w)) = writes w
   \<and> posts (snd (transcribe p e a f w)) = posts w
   \<and> llm_calls (snd (transcribe p e a f w)) = llm_calls w"
  by (cases p)
     (simp_all add: OpenAIProvider_transcribe_def ElevenLabsProvider_transcribe_def
        GoogleProvider_transcribe_def AWSProvider_transcribe_def Let_def
        split: option.splits sum.splits)

lemma transcribe_raise:
  "transcribe p e a f w = (Inl x, w1)
   \<Longrightarrow> p = OpenAIProvider \<and> w1 = w \<and> getenv e ''OPENAI_API_KEY'' [] \<noteq> []
       \<and> OpenAI_init e (getenv e ''OPENAI_API_KEY'' []) = Some x"
  by (cases p)
     (auto simp: OpenAIProvider_transcribe_def ElevenLabsProvider_transcribe_def
        GoogleProvider_transcribe_def AWSProvider_transcribe_def Let_def
        split: option.splits sum.splits if_splits dest: arg_cong [where f=fst])

lemma llm_summary_frame:
  "store (snd (llm_summary e text w)) = store w
   \<and> writes (snd (llm_summary e text w)) = writes w
   \<and> posts (snd (llm_summary e text w)) = posts w
   \<and> llm_calls (snd (llm_summary e text w)) = llm_calls w @ [text]"
  by (simp add: llm_summary_def Let_def split: option.splits sum.splits)

lemma send_webhook_result:
  "fst (send_webhook e u pl w) = Inr ()
   \<and> posts (snd (send_webhook e u pl w)) = posts w @ [(u, pl)]
   \<and> store (snd (send_webhook e u pl w)) = store w
   \<and> writes (snd (send_webhook e u pl w)) = writes w
   \<and> llm_calls (snd (send_webhook e u pl w)) = llm_calls w"
  by (simp add: send_webhook_def Let_def split: option.splits)

lemma finalize_ok:
  assumes "merge_raises e = None" and "commit_raises e = None" and "close_raises e = None"
  shows "fst (finalize e t st tx sm w) = Inr ()
   \<and> writes (snd (finalize e t st tx sm w)) = writes w @ [hist_row t st tx sm]
   \<and> store (snd (finalize e t st tx sm w)) = session_merge (utcnow e) (hist_row t st tx sm) (store w)
   \<and> llm_calls (snd (finalize e t st tx sm w)) = llm_calls w
   \<and> posts (snd (finalize e t st tx sm w))
       = posts w @ (case t_webhook_url t of None \<Rightarrow> []
                    | Some url \<Rightarrow> if url \<noteq> [] then [(url, webhook_payload t st tx sm)] else [])"
  using assms by (simp add: finalize_def Let_def send_webhook_result split: option.splits)

lemma finalize_commit_fails:
  assumes "merge_raises e = None" and "commit_raises e = Some x"
  shows "finalize e t st tx sm w = (Inl x, w)"
  using assms by (simp add: finalize_def Let_def)


lemma try_block_raise:
  assumes "try_block e t w = (Inl x, w1)"
  shows "w1 = w"
proof (cases "PROVIDER_MAP (t_provider_name t)")
  case None
  with assms show ?thesis by (simp add: try_block_def)
next
  case (Some p)
  obtain r w2 where tr: "transcribe p e (t_audio_bytes t) (t_filename t) w = (r, w2)"
    by (cases "transcribe p e (t_audio_bytes t) (t_filename t) w")
  show ?thesis
  proof (cases r)
    case (Inl y)
    with tr transcribe_raise have "w2 = w" by blast
    with assms Some tr Inl show ?thesis by (simp add: try_block_def)
  next
    case (Inr v)
    with assms Some tr show ?thesis
      by (auto simp: try_block_def split: option.splits if_splits prod.splits)
  qed
qed

lemma try_block_frame:
  "store (snd (try_block e t w)) = store w
   \<and> writes (snd (try_block e t w)) = writes w
   \<and> posts (snd (try_block e t w)) = posts w"
proof (cases "PROVIDER_MAP (t_provider_name t)")
  case None
  then show ?thesis by (simp add: try_block_def)
next
  case (Some p)
  obtain r w1 where tr: "transcribe p e (t_audio_bytes t) (t_filename t) w = (r, w1)"
    by (cases "transcribe p e (t_audio_bytes t) (t_filename t) w")
  have f1: "store w1 = store w \<and> writes w1 = writes w \<and> posts w1 = posts w"
    using transcribe_frame [of p e "t_audio_bytes t" "t_filename t" w] tr by simp
  show ?thesis
  proof (cases r)
    case (Inl x)
    with Some tr f1 show ?thesis by (simp add: try_block_def)
  next
    case (Inr v)
    show ?thesis
    proof (cases v)
      case None
      with Some tr f1 Inr show ?thesis by (simp add: try_block_def)
    next
      case (Some tx)
      obtain sm w2 where ll: "llm_summary e tx w1 = (sm, w2)" by (cases "llm_summary e tx w1")
      have f2: "store w2 = store w1 \<and> writes w2 = writes w1 \<and> posts w2 = posts w1"
        using llm_summary_frame [of e tx w1] ll by simp
      from \<open>PROVIDER_MAP (t_provider_name t) = Some p\<close> tr f1 f2 Inr Some ll show ?thesis
        by (simp add: try_block_def)
    qed
  qed
qed

section \<open>Providers\<close>

lemma provider_map_names [simp]:
  "PROVIDER_MAP ''openai'' = Some OpenAIProvider"
  "PROVIDER_MAP ''elevenlabs'' = Some ElevenLabsProvider"
  "PROVIDER_MAP ''google'' = Some GoogleProvider"
  "PROVIDER_MAP ''aws'' = Some AWSProvider"
  by (simp_all add: PROVIDER_MAP_def PROVIDERS_def)

lemma other_providers_never_raise:
  "p \<noteq> OpenAIProvider \<Longrightarrow> \<exists>r. fst (transcribe p e a f w) = Inr r"
  by (cases "transcribe p e a f w", cases "fst (transcribe p e a f w)")
     (auto dest: transcribe_raise)

lemma openai_raises_iff:
  "(\<exists>x. fst (transcribe OpenAIProvider e a f w) = Inl x)
   \<longleftrightarrow> getenv e ''OPENAI_API_KEY'' [] \<noteq> []
       \<and> OpenAI_init e (getenv e ''OPENAI_API_KEY'' []) \<noteq> None"
  by (auto simp: OpenAIProvider_transcribe_def Let_def split: option.splits sum.splits)

text \<open>
  C3. The claim is that no registered provider raises past \<open>transcribe\<close>. With the key set
  and a client constructor that raises, \<open>OpenAIProvider.transcribe\<close> does raise: the
  constructor call stands before the \<open>try\<close> statement. By \<open>other_providers_never_raise\<close>
  and \<open>openai_raises_iff\<close> this is the only way any registered provider raises.
\<close>

theorem openai_constructor_error_escapes:
  "fst (transcribe OpenAIProvider env_openai_broken (replicate 100 0) ''talk.mp3'' world0)
     = Inl (Error ''unexpected keyword argument'')"
  by (simp add: OpenAIProvider_transcribe_def env_openai_broken_def env0_def getenv_def)

section \<open>The Job Store\<close>

lemma session_merge_ids:
  "map h_id (session_merge n h rows)
     = (if h_id h \<in> set (map h_id rows) then map h_id rows else map h_id rows @ [h_id h])"
  by (induction rows) auto

lemma session_merge_distinct:
  "distinct (map h_id rows) \<Longrightarrow> distinct (map h_id (session_merge n h rows))"
  by (simp add: session_merge_ids)

lemma session_merge_others:
  "k \<noteq> h_id h \<Longrightarrow> filter (\<lambda>r. h_id r = k) (session_merge n h rows) = filter (\<lambda>r. h_id r = k) rows"
  by (induction rows) auto

lemma filter_absent: "k \<notin> set (map h_id rows) \<Longrightarrow> filter (\<lambda>r. h_id r = k) rows = []"
  by (induction rows) auto

lemma get_by_id_absent: "k \<notin> set (map h_id rows) \<Longrightarrow> get_by_id k rows = None"
  by (induction rows) (auto simp: get_by_id_def)

lemma session_merge_row:
  "distinct (map h_id rows)
   \<Longrightarrow> filter (\<lambda>r. h_id r = h_id h) (session_merge n h rows)
       = [h\<lparr>h_created_at := (case get_by_id (h_id h) rows of
                                None \<Rightarrow> Some n | Some r \<Rightarrow> h_created_at r)\<rparr>]"
proof (induction rows)
  case Nil
  then show ?case by (simp add: get_by_id_def)
next
  case (Cons r rs)
  show ?case
  proof (cases "h_id r = h_id h")
    case True
    with Cons.prems have "h_id h \<notin> set (map h_id rs)" by auto
    then have "filter (\<lambda>r. h_id r = h_id h) rs = []" by (rule filter_absent)
    with True show ?thesis by (simp add: get_by_id_def)
  next
    case False
    with Cons show ?thesis by (simp add: get_by_id_def)
  qed
qed

lemma get_by_id_filter:
  "get_by_id k rows = (case filter (\<lambda>r. h_id r = k) rows of [] \<Rightarrow> None | r # rs \<Rightarrow> Some r)"
  by (induction rows) (auto simp: get_by_id_def)


text \<open>
  C9. On a table that respects its primary key, two upserts for the same id leave exactly
  one row with that id; it holds the values of the second upsert, with the creation time
  the row had before the second write (the task never sets it). Rows with other ids are
  as they were.
\<close>

theorem upsert_twice_one_row:
  assumes "distinct (map h_id rows)" and "h_id r2 = h_id r1"
  shows "filter (\<lambda>r. h_id r = h_id r1) (session_merge n2 r2 (session_merge n1 r1 rows))
           = [r2\<lparr>h_created_at := (case get_by_id (h_id r1) rows of
                                     None \<Rightarrow> Some n1 | Some r \<Rightarrow> h_created_at r)\<rparr>]
       \<and> get_by_id (h_id r1) (session_merge n2 r2 (session_merge n1 r1 rows))
           = Some (r2\<lparr>h_created_at := (case get_by_id (h_id r1) rows of
                                     None \<Rightarrow> Some n1 | Some r \<Rightarrow> h_created_at r)\<rparr>)
       \<and> (\<forall>k. k \<noteq> h_id r1
            \<longrightarrow> filter (\<lambda>r. h_id r = k) (session_merge n2 r2 (session_merge n1 r1 rows))
                = filter (\<lambda>r. h_id r = k) rows)"
proof -
  let ?c = "case get_by_id (h_id r1) rows of None \<Rightarrow> Some n1 | Some r \<Rightarrow> h_created_at r"
  let ?s1 = "session_merge n1 r1 rows"
  have d1: "distinct (map h_id ?s1)" using assms(1) by (rule session_merge_distinct)
  have f1: "filter (\<lambda>r. h_id r = h_id r1) ?s1 = [r1\<lparr>h_created_at := ?c\<rparr>]"
    using assms(1) by (rule session_merge_row)
  then have g1: "get_by_id (h_id r2) ?s1 = Some (r1\<lparr>h_created_at := ?c\<rparr>)"
    by (simp add: get_by_id_filter assms(2))
  have f2: "filter (\<lambda>r. h_id r = h_id r1) (session_merge n2 r2 ?s1) = [r2\<lparr>h_created_at := ?c\<rparr>]"
    using session_merge_row [OF d1, of r2 n2] g1 by (simp add: assms(2))
  then have g2: "get_by_id (h_id r1) (session_merge n2 r2 ?s1) = Some (r2\<lparr>h_created_at := ?c\<rparr>)"
    by (simp add: get_by_id_filter)
  have o: "\<forall>k. k \<noteq> h_id r1
            \<longrightarrow> filter (\<lambda>r. h_id r = k) (session_merge n2 r2 ?s1) = filter (\<lambda>r. h_id r = k) rows"
    by (simp add: session_merge_others assms(2))
  from f2 g2 o show ?thesis by (intro conjI)
qed

theorem upsert_twice_one_row_witness:
  "distinct (map h_id [row_other]) \<and> h_id row_b = h_id row_a
   \<and> session_merge 7 row_b (session_merge 5 row_a [row_other])
       = [row_other, row_b\<lparr>h_created_at := Some 5\<rparr>]
   \<and> filter (\<lambda>r. h_id r = ''job-1'') (session_merge 7 row_b (session_merge 5 row_a [row_other]))
       = [row_b\<lparr>h_created_at := Some 5\<rparr>]
   \<and> get_by_id ''job-1'' (session_merge 7 row_b (session_merge 5 row_a [row_other]))
       = Some (row_b\<lparr>h_created_at := Some 5\<rparr>)"
proof -
  have d: "distinct (map h_id [row_other])" by simp
  have i: "h_id row_b = h_id row_a" by (simp add: row_a_def row_b_def hist_row_def)
  have k: "h_id row_a = ''job-1''" by (simp add: row_a_def hist_row_def job0_def)
  have g: "get_by_id ''job-1'' [row_other] = None"
    by (simp add: get_by_id_def row_other_def hist_row_def)
  have m: "session_merge 7 row_b (session_merge 5 row_a [row_other])
             = [row_other, row_b\<lparr>h_created_at := Some 5\<rparr>]"
    by (simp add: row_a_def row_b_def row_other_def hist_row_def job0_def)
  from upsert_twice_one_row [OF d i, of 7 5] d i m show ?thesis
    by (simp add: k g)
qed

section \<open>One delivery of the task\<close>

lemma process_finalizes:
  assumes "SessionLocal_raises e = None" and "try_block e t w = (Inr (st, tx, sm), w1)"
  shows "process_transcription_job e t w = finalize e t st tx sm w1"
  using assms by (simp add: process_transcription_job_def)

lemma session_failure:
  "SessionLocal_raises e = Some x \<Longrightarrow> process_transcription_job e t w = (Inl x, w)"
  by (simp add: process_transcription_job_def)



lemma try_block_absent:
  assumes "PROVIDER_MAP (t_provider_name t) = Some p"
    and "transcribe p e (t_audio_bytes t) (t_filename t) w = (Inr None, w1)"
  shows "try_block e t w = (Inr (''failed'', None, None), w1)"
  using assms by (simp add: try_block_def)



lemma elevenlabs_no_key:
  "transcribe ElevenLabsProvider env0 a f w = (Inr None, log_msg ''ELEVENLABS_API_KEY is not set.'' w)"
  by (simp add: ElevenLabsProvider_transcribe_def env0_def getenv_def)


lemma db_ok_env0 [simp]:
  "db_ok env0" "db_ok env_summary_down" "db_ok env_openai_silent" "db_ok env_openai_broken"
  by (simp_all add: db_ok_def env0_def env_summary_down_def env_openai_silent_def
        env_openai_broken_def)







text \<open>
  The notification of a delivery whose \<open>try\<close> block completes, when the database calls do
  not raise: the task returns normally also when the POST fails, it publishes no retry,
  and it attempts exactly one POST, with the payload \<open>{job_id, status, text, summary}\<close> of
  the row, when the webhook URL is present and non-empty, none otherwise. When
  \<open>session.commit\<close> raises, the task raises there and attempts no POST.
\<close>

lemma finalizing_delivery_notifies:
  assumes "db_ok e" and "try_block e t w = (Inr (status, tx, summary), w1)"
  shows "fst (process_transcription_job e t w) = Inr ()
       \<and> queue (snd (process_transcription_job e t w)) = queue w
       \<and> (\<forall>url. t_webhook_url t = Some url \<and> url \<noteq> []
            \<longrightarrow> posts (snd (process_transcription_job e t w))
                  = posts w @ [(url, \<lparr>p_job_id = t_job_id t, p_status = status, p_text = tx,
                                     p_summary = summary\<rparr>)])
       \<and> (t_webhook_url t = None \<or> t_webhook_url t = Some []
            \<longrightarrow> posts (snd (process_transcription_job e t w)) = posts w)"
proof -
  from assms(1) have d: "SessionLocal_raises e = None" "merge_raises e = None"
    "commit_raises e = None" "close_raises e = None"
    by (simp_all add: db_ok_def)
  have fr: "posts w1 = posts w \<and> queue w1 = queue w"
    using try_block_frame [of e t w] queue_try_block [of e t w] assms(2) by simp
  have pr: "process_transcription_job e t w = finalize e t status tx summary w1"
    using process_finalizes [OF d(1) assms(2)] .
  show ?thesis
    using finalize_ok [OF d(2) d(3) d(4), of t status tx summary w1]
      queue_finalize [of e t status tx summary w1] fr
    by (auto simp: pr webhook_payload_def)
qed

lemma commit_failure_leaves_task:
  assumes "SessionLocal_raises e = None" and "merge_raises e = None"
    and "commit_raises e = Some x" and "try_block e t w = (Inr (status, tx, summary), w1)"
  shows "fst (process_transcription_job e t w) = Inl x
       \<and> store (snd (process_transcription_job e t w)) = store w
       \<and> posts (snd (process_transcription_job e t w)) = posts w"
  using process_finalizes [OF assms(1) assms(4)] finalize_commit_fails [OF assms(2) assms(3)]
    try_block_frame [of e t w] assms(4)
  by simp

section \<open>Retries\<close>

lemma try_block_isl:
  "isl (fst (try_block e t w))
   \<longleftrightarrow> PROVIDER_MAP (t_provider_name t) = None
       \<or> (PROVIDER_MAP (t_provider_name t) = Some OpenAIProvider
           \<and> getenv e ''OPENAI_API_KEY'' [] \<noteq> []
           \<and> OpenAI_init e (getenv e ''OPENAI_API_KEY'' []) \<noteq> None)"
proof (cases "PROVIDER_MAP (t_provider_name t)")
  case None
  then show ?thesis by (simp add: try_block_def)
next
  case (Some p)
  obtain r w1 where tr: "transcribe p e (t_audio_bytes t) (t_filename t) w = (r, w1)"
    by (cases "transcribe p e (t_audio_bytes t) (t_filename t) w")
  have a: "isl (fst (try_block e t w)) \<longleftrightarrow> isl r"
    using Some tr by (auto simp: try_block_def split: sum.splits option.splits prod.splits)
  have b: "isl r \<longleftrightarrow> (\<exists>x. fst (transcribe p e (t_audio_bytes t) (t_filename t) w) = Inl x)"
    using tr by (cases r) auto
  show ?thesis
  proof (cases "p = OpenAIProvider")
    case True
    with a b Some openai_raises_iff [of e "t_audio_bytes t" "t_filename t" w] show ?thesis by simp
  next
    case False
    with other_providers_never_raise [OF False, of e "t_audio_bytes t" "t_filename t" w] a b Some
    show ?thesis by auto
  qed
qed

lemma attempt_raises_any_world: "isl (fst (try_block e t w)) \<longleftrightarrow> attempt_raises e t"
  by (simp add: attempt_raises_def try_block_isl)

lemma attempt_raises_retried [simp]:
  "attempt_raises e (t\<lparr>t_retries := r, t_countdown := c\<rparr>) = attempt_raises e t"
  by (simp add: attempt_raises_def try_block_isl)

lemma raising_attempt:
  assumes "SessionLocal_raises e = None" and "try_block e t w = (Inl x, w1)"
  shows "process_transcription_job e t w
           = (if max_retries < t_retries t + 1 then (Inl x, w)
              else (Inl (Retry x),
                    w\<lparr>queue := queue w
                          @ [t\<lparr>t_retries := t_retries t + 1, t_countdown := default_retry_delay\<rparr>]\<rparr>))"
proof -
  have "w1 = w" using assms(2) by (rule try_block_raise)
  with assms show ?thesis
    by (simp add: process_transcription_job_def retry_def Let_def)
qed

lemma raising_attempt_frame:
  assumes "attempt_raises e t"
  shows "writes (snd (process_transcription_job e t w)) = writes w
       \<and> store (snd (process_transcription_job e t w)) = store w
       \<and> posts (snd (process_transcription_job e t w)) = posts w"
proof (cases "SessionLocal_raises e")
  case (Some x)
  then show ?thesis by (simp add: session_failure)
next
  case None
  from assms have "isl (fst (try_block e t w))" by (simp add: attempt_raises_any_world)
  then obtain x w1 where "try_block e t w = (Inl x, w1)"
    by (cases "try_block e t w", cases "fst (try_block e t w)") auto
  from raising_attempt [OF None this] show ?thesis by simp
qed

lemma finalize_other_job:
  assumes "t_job_id t \<noteq> j"
  shows "filter (\<lambda>h. h_id h = j) (writes (snd (finalize e t st tx sm w)))
           = filter (\<lambda>h. h_id h = j) (writes w)
       \<and> filter (\<lambda>h. h_id h = j) (store (snd (finalize e t st tx sm w)))
           = filter (\<lambda>h. h_id h = j) (store w)
       \<and> filter (\<lambda>up. p_job_id (snd up) = j) (posts (snd (finalize e t st tx sm w)))
           = filter (\<lambda>up. p_job_id (snd up) = j) (posts w)"
proof -
  have id: "h_id (hist_row t st tx sm) = t_job_id t" by (simp add: hist_row_def)
  have m: "filter (\<lambda>h. h_id h = j) (session_merge (utcnow e) (hist_row t st tx sm) (store w))
             = filter (\<lambda>h. h_id h = j) (store w)"
    using session_merge_others [of j "hist_row t st tx sm" "utcnow e" "store w"] assms
    by (simp add: id)
  show ?thesis
    using assms m
    by (simp add: finalize_def Let_def send_webhook_result id webhook_payload_def
          split: option.splits)
qed

lemma other_job_frame:
  assumes "t_job_id t \<noteq> j"
  shows "filter (\<lambda>h. h_id h = j) (writes (snd (process_transcription_job e t w)))
           = filter (\<lambda>h. h_id h = j) (writes w)
       \<and> filter (\<lambda>h. h_id h = j) (store (snd (process_transcription_job e t w)))
           = filter (\<lambda>h. h_id h = j) (store w)
       \<and> filter (\<lambda>up. p_job_id (snd up) = j) (posts (snd (process_transcription_job e t w)))
           = filter (\<lambda>up. p_job_id (snd up) = j) (posts w)"
proof (cases "attempt_raises e t")
  case True
  from raising_attempt_frame [OF True, of w] show ?thesis by simp
next
  case False
  show ?thesis
  proof (cases "SessionLocal_raises e")
    case (Some x)
    then show ?thesis by (simp add: session_failure)
  next
    case None
    from False have "\<not> isl (fst (try_block e t w))" by (simp add: attempt_raises_any_world)
    then obtain st tx sm w1 where tb: "try_block e t w = (Inr (st, tx, sm), w1)"
      by (cases "try_block e t w", cases "fst (try_block e t w)") auto
    have fr: "store w1 = store w \<and> writes w1 = writes w \<and> posts w1 = posts w"
      using try_block_frame [of e t w] tb by simp
    show ?thesis
      using finalize_other_job [OF assms, of e st tx sm w1] fr
      by (simp add: process_finalizes [OF None tb])
  qed
qed

text \<open>
  A job whose \<open>try\<close> block raises in every delivery of each of its messages leaves no
  trace, whatever else is in the queue: the worker empties the queue, and the writes and
  the rows under that job id, and the notifications for it, are those from before.
\<close>

lemma exhausted_job_leaves_no_trace:
  "\<forall>t \<in> set (queue w). t_job_id t = j \<longrightarrow> (\<forall>m. attempt_raises (envs m) t)
   \<Longrightarrow> queue (worker_loop envs n w) = []
       \<and> filter (\<lambda>h. h_id h = j) (writes (worker_loop envs n w)) = filter (\<lambda>h. h_id h = j) (writes w)
       \<and> filter (\<lambda>h. h_id h = j) (store (worker_loop envs n w)) = filter (\<lambda>h. h_id h = j) (store w)
       \<and> filter (\<lambda>up. p_job_id (snd up) = j) (posts (worker_loop envs n w))
           = filter (\<lambda>up. p_job_id (snd up) = j) (posts w)"
proof (induction envs n w rule: worker_loop.induct)
  case (1 envs n w)
  show ?case
  proof (cases "queue w")
    case Nil
    then show ?thesis by (subst (1 2 3 4) worker_loop.simps) simp
  next
    case (Cons t q)
    let ?w0 = "w\<lparr>queue := q\<rparr>"
    let ?w' = "snd (process_transcription_job (envs n) t ?w0)"
    have step: "worker_loop envs n w = worker_loop envs (Suc n) ?w'"
      using Cons by (subst worker_loop.simps) simp
    have qs: "queue ?w' = q \<or> queue ?w' = q @ [t\<lparr>t_retries := t_retries t + 1,
                                                  t_countdown := default_retry_delay\<rparr>]"
      using queue_process [of "envs n" t ?w0] by auto
    have inv: "\<forall>t' \<in> set (queue ?w'). t_job_id t' = j \<longrightarrow> (\<forall>m. attempt_raises (envs m) t')"
      using qs "1.prems" Cons by auto
    have fr: "filter (\<lambda>h. h_id h = j) (writes ?w') = filter (\<lambda>h. h_id h = j) (writes w)
       \<and> filter (\<lambda>h. h_id h = j) (store ?w') = filter (\<lambda>h. h_id h = j) (store w)
       \<and> filter (\<lambda>up. p_job_id (snd up) = j) (posts ?w') = filter (\<lambda>up. p_job_id (snd up) = j) (posts w)"
    proof (cases "t_job_id t = j")
      case True
      with "1.prems" Cons have "attempt_raises (envs n) t" by simp
      from raising_attempt_frame [OF this, of ?w0] show ?thesis by simp
    next
      case False
      from other_job_frame [OF False, of "envs n" ?w0] show ?thesis by simp
    qed
    from "1.IH" [OF Cons inv] fr show ?thesis by (simp only: step)
  qed
qed

lemma broken_try_block:
  "t_provider_name t = ''openai''
   \<Longrightarrow> try_block env_openai_broken t w = (Inl (Error ''unexpected keyword argument''), w)"
  by (simp add: try_block_def OpenAIProvider_transcribe_def env_openai_broken_def env0_def getenv_def)

lemma broken_attempt:
  "t_provider_name t = ''openai''
   \<Longrightarrow> process_transcription_job env_openai_broken t w
       = (if max_retries < t_retries t + 1 then (Inl (Error ''unexpected keyword argument''), w)
          else (Inl (Retry (Error ''unexpected keyword argument'')),
                w\<lparr>queue := queue w
                      @ [t\<lparr>t_retries := t_retries t + 1, t_countdown := default_retry_delay\<rparr>]\<rparr>))"
proof -
  assume p: "t_provider_name t = ''openai''"
  have s: "SessionLocal_raises env_openai_broken = None"
    by (simp add: env_openai_broken_def env0_def)
  from raising_attempt [OF s broken_try_block [OF p]] show ?thesis .
qed

lemma broken_raises: "attempt_raises env_openai_broken job0"
  by (simp add: attempt_raises_def broken_try_block job0_def)

lemma broken_loop: "worker_loop envs_openai_broken 0 (world0\<lparr>queue := [job0]\<rparr>) = world0"
  by (simp add: worker_loop.simps broken_attempt envs_openai_broken_def job0_def world0_def
        max_retries_def default_retry_delay_def)

text \<open>
  C1. The claim is that a job whose provider raises in every attempt is written once,
  with status \<open>failed\<close>, when its retries are exhausted. With a client constructor that
  raises in every delivery, the first delivery publishes the retry and raises \<open>Retry\<close>,
  the delivery with three retries behind it raises the error itself, and at the end the
  queue is empty and nothing has been written for the job: no finalization write, no row
  with status \<open>failed\<close>, no notification. The handler calls \<open>self.retry\<close>, which raises, so
  the finalization after the \<open>try\<close> statement is never reached on this path.
\<close>

theorem exhausted_retries_job_vanishes:
  "process_transcription_job (envs_openai_broken 0) job0 world0
     = (Inl (Retry (Error ''unexpected keyword argument'')),
        world0\<lparr>queue := [job0\<lparr>t_retries := 1, t_countdown := 10\<rparr>]\<rparr>)
   \<and> process_transcription_job (envs_openai_broken 3) (job0\<lparr>t_retries := 3, t_countdown := 10\<rparr>) world0
     = (Inl (Error ''unexpected keyword argument''), world0)
   \<and> queue (worker_loop envs_openai_broken 0 (world0\<lparr>queue := [job0]\<rparr>)) = []
   \<and> writes (worker_loop envs_openai_broken 0 (world0\<lparr>queue := [job0]\<rparr>)) = []
   \<and> get_by_id ''job-1'' (store (worker_loop envs_openai_broken 0 (world0\<lparr>queue := [job0]\<rparr>))) = None
   \<and> posts (worker_loop envs_openai_broken 0 (world0\<lparr>queue := [job0]\<rparr>)) = []"
proof -
  have first: "process_transcription_job (envs_openai_broken 0) job0 world0
     = (Inl (Retry (Error ''unexpected keyword argument'')),
        world0\<lparr>queue := [job0\<lparr>t_retries := 1, t_countdown := 10\<rparr>]\<rparr>)"
    by (simp add: broken_attempt envs_openai_broken_def job0_def world0_def
          max_retries_def default_retry_delay_def)
  have last: "process_transcription_job (envs_openai_broken 3)
                (job0\<lparr>t_retries := 3, t_countdown := 10\<rparr>) world0
     = (Inl (Error ''unexpected keyword argument''), world0)"
    by (simp add: broken_attempt envs_openai_broken_def job0_def max_retries_def)
  have empty: "queue world0 = []" "writes world0 = []" "posts world0 = []"
    "get_by_id ''job-1'' (store world0) = None"
    by (simp_all add: world0_def get_by_id_def)
  from first last empty show ?thesis by (simp only: broken_loop simp_thms)
qed

text \<open>
  C5. The claim is one notification for every terminal attempt of a job submitted with a
  webhook URL. The job here carries the URL \<open>http://client/hook\<close>; the attempt that
  exhausts its retries is its last, it raises the provider's error, and it attempts no
  POST; over all deliveries of the job no POST is attempted at all. On the sibling
  path, where the provider returns \<open>None\<close> (here ElevenLabs without its key), the task
  does attempt the one POST, with status \<open>failed\<close>.
\<close>

theorem exhausted_attempt_sends_no_webhook:
  "t_webhook_url (job0\<lparr>t_retries := 3, t_countdown := 10\<rparr>) = Some ''http://client/hook''
   \<and> fst (process_transcription_job env_openai_broken (job0\<lparr>t_retries := 3, t_countdown := 10\<rparr>)
            world0) = Inl (Error ''unexpected keyword argument'')
   \<and> posts (snd (process_transcription_job env_openai_broken
                    (job0\<lparr>t_retries := 3, t_countdown := 10\<rparr>) world0)) = []
   \<and> posts (worker_loop envs_openai_broken 0 (world0\<lparr>queue := [job0]\<rparr>)) = []
   \<and> posts (snd (process_transcription_job env0 (job0\<lparr>t_provider_name := ''elevenlabs''\<rparr>) world0))
       = [(''http://client/hook'',
           \<lparr>p_job_id = ''job-1'', p_status = ''failed'', p_text = None, p_summary = None\<rparr>)]"
proof -
  let ?l = "job0\<lparr>t_provider_name := ''elevenlabs''\<rparr>"
  let ?w1 = "log_msg ''ELEVENLABS_API_KEY is not set.'' world0"
  have url: "t_webhook_url (job0\<lparr>t_retries := 3, t_countdown := 10\<rparr>) = Some ''http://client/hook''"
    by (simp add: job0_def)
  have last: "process_transcription_job env_openai_broken
                (job0\<lparr>t_retries := 3, t_countdown := 10\<rparr>) world0
     = (Inl (Error ''unexpected keyword argument''), world0)"
    by (simp add: broken_attempt job0_def max_retries_def)
  have p0: "posts world0 = []" by (simp add: world0_def)
  have pl: "PROVIDER_MAP (t_provider_name ?l) = Some ElevenLabsProvider" by simp
  have tl: "try_block env0 ?l world0 = (Inr (''failed'', None, None), ?w1)"
    using try_block_absent [OF pl, of env0 world0 ?w1] elevenlabs_no_key by simp
  have d: "db_ok env0" by simp
  have sib: "posts (snd (process_transcription_job env0 ?l world0))
       = [(''http://client/hook'',
           \<lparr>p_job_id = ''job-1'', p_status = ''failed'', p_text = None, p_summary = None\<rparr>)]"
    using finalizing_delivery_notifies [OF d tl] p0 by (simp add: job0_def)
  from url last p0 sib show ?thesis by (simp only: broken_loop fst_conv snd_conv simp_thms)
qed

end
